theory Spec2Isabelle
  imports Complex_Main "HOL-Library.AList"
begin

section \<open>The trading bot of \<open>bot.py\<close>\<close>

text \<open>
  A shallow embedding of \<open>src/bot.py\<close>: the price feed (\<open>get_current_prices\<close>), the
  rounding of order amounts (\<open>round_amount\<close>), the decision engine
  (\<open>check_trading_conditions\<close>), the persistence of the state (\<open>save_state\<close>,
  \<open>load_state\<close>) and the body of the main loop.

  Numbers. The program computes with Python floats (and the integer \<open>AMOUNT_TO_BUY\<close>).
  The model computes with exact rationals: the rounding error of the IEEE operations and
  the special values (infinities, NaN) are outside the model.

  Dictionaries. A Python \<open>dict\<close> is an association list in insertion order, read by
  \<open>map_of\<close>, written by \<open>AList.update\<close> (an existing key keeps its position, a new
  key is appended) and \<open>AList.delete\<close>.

  Exceptions. A call of the exchange that raises is a result \<open>None\<close> or \<open>False\<close> of
  the model of the exchange; an exception that leaves \<open>check_trading_conditions\<close> is
  the outcome \<open>Raised\<close>.
\<close>

subsection \<open>Configuration (lines 20--31)\<close>

type_synonym coin = string

definition AMOUNT_TO_BUY :: rat where
  "AMOUNT_TO_BUY = 5"

definition PRICE_DROP_THRESHOLD :: rat where
  "PRICE_DROP_THRESHOLD = 5 / 100"

definition PRICE_RISE_THRESHOLD :: rat where
  "PRICE_RISE_THRESHOLD = 10 / 100"


definition STATE_FILE :: string where
  "STATE_FILE = ''trading_state.json''"

subsection \<open>The exchange\<close>

text \<open>
  The value found at \<open>market['precision']['amount']\<close>: a Python \<open>int\<close>, or anything
  else (\<open>None\<close>, a float tick size, a string).
\<close>

datatype amount_precision = IntPrecision int | OtherPrecision

text \<open>
  The exchange object of ccxt, as the program uses it.
  \<^item> \<open>fetch_ticker symbol\<close> is the value of \<open>exchange.fetch_ticker(symbol)['last']\<close>,
    \<open>None\<close> when the call or the subscript raises.
  \<^item> \<open>load_markets\<close> is \<open>None\<close> when \<open>exchange.load_markets()\<close> raises; otherwise
    it maps a symbol to the value of \<open>markets[symbol]['precision']['amount']\<close>, and to
    \<open>None\<close> when one of these subscripts raises \<open>KeyError\<close>.
  \<^item> \<open>create_market_buy_order symbol amount\<close> and
    \<open>create_market_sell_order symbol amount\<close> are \<open>True\<close> when the call returns a
    receipt and \<open>False\<close> when it raises. The program only logs the receipt.
\<close>

record exchange =
  fetch_ticker :: "string \<Rightarrow> rat option"
  load_markets :: "(string \<Rightarrow> amount_precision option) option"
  create_market_buy_order :: "string \<Rightarrow> rat \<Rightarrow> bool"
  create_market_sell_order :: "string \<Rightarrow> rat \<Rightarrow> bool"

text \<open>The orders submitted to the exchange, in the order of the calls.\<close>

datatype placed_order = MarketBuy string rat | MarketSell string rat

fun order_symbol :: "placed_order \<Rightarrow> string" where
  "order_symbol (MarketBuy symbol amount) = symbol"
| "order_symbol (MarketSell symbol amount) = symbol"

text \<open>\<open>f"{coin}/USDT"\<close> (lines 67 and 83).\<close>

definition symbol_of :: "coin \<Rightarrow> string" where
  "symbol_of coin = coin @ ''/USDT''"

subsection \<open>The trading state (lines 50--54)\<close>

record state =
  holdings :: "(coin \<times> rat) list"
  buy_prices :: "(coin \<times> rat) list"
  reference_prices :: "(coin \<times> rat) list"

definition empty_state :: state where
  "empty_state = \<lparr>holdings = [], buy_prices = [], reference_prices = []\<rparr>"

subsection \<open>\<open>get_current_prices\<close> (lines 62--73)\<close>



subsection \<open>\<open>round_amount\<close> (lines 75--78)\<close>

text \<open>
  \<open>10 ** precision\<close> is the integer power for a precision that is not negative and the
  float \<open>1 / 10 ** (-precision)\<close> for a negative one.
\<close>

definition round_amount :: "rat \<Rightarrow> int \<Rightarrow> rat" where
  "round_amount amount precision =
     (let factor = (if 0 \<le> precision then 10 ^ nat precision else 1 / 10 ^ nat (- precision))
      in of_int \<lfloor>amount * factor + 1 / 2\<rfloor> / factor)"

subsection \<open>\<open>check_trading_conditions\<close> (lines 80--156)\<close>

datatype py_error = KeyError | ZeroDivisionError

text \<open>
  The function either returns or raises. In both cases the dictionaries have been
  updated in place, so both outcomes carry the state reached and the orders submitted.
\<close>

datatype outcome =
  Returned "state \<times> placed_order list"
| Raised py_error "state \<times> placed_order list"

fun outcome_state :: "outcome \<Rightarrow> state" where
  "outcome_state (Returned r) = fst r"
| "outcome_state (Raised e r) = fst r"

fun outcome_orders :: "outcome \<Rightarrow> placed_order list" where
  "outcome_orders (Returned r) = snd r"
| "outcome_orders (Raised e r) = snd r"

text \<open>
  Lines 100--110: the amount of the buy order, \<open>None\<close> when one of these lines raises
  (the division by a price of zero, \<open>load_markets\<close>, a missing key). The exception is
  caught at line 123.
\<close>

definition buy_amount :: "exchange \<Rightarrow> string \<Rightarrow> rat \<Rightarrow> rat option" where
  "buy_amount exch symbol price =
     (if price = 0 then None
      else case load_markets exch of
        None \<Rightarrow> None
      | Some markets \<Rightarrow>
          (case markets symbol of
             None \<Rightarrow> None
           | Some amount \<Rightarrow>
               let amount_precision = (case amount of IntPrecision n \<Rightarrow> n | OtherPrecision \<Rightarrow> 8)
               in Some (round_amount (AMOUNT_TO_BUY / price) amount_precision)))"

text \<open>The body of the loop (lines 83--154) for one item of \<open>current_prices\<close>.\<close>

fun check_coin :: "exchange \<Rightarrow> state \<times> placed_order list \<Rightarrow> coin \<times> rat \<Rightarrow> outcome" where
  "check_coin exch (st, orders) (coin, price) =
     (let symbol = symbol_of coin in
      case map_of (reference_prices st) coin of
        None \<Rightarrow>
          Returned (st\<lparr>reference_prices := AList.update coin price (reference_prices st)\<rparr>, orders)
      | Some reference_price \<Rightarrow>
          (case map_of (holdings st) coin of
             None \<Rightarrow>
               if reference_price = 0 then Raised ZeroDivisionError (st, orders)
               else if (price - reference_price) / reference_price \<le> - PRICE_DROP_THRESHOLD then
                 (case buy_amount exch symbol price of
                    None \<Rightarrow> Returned (st, orders)
                  | Some amount_in_coin \<Rightarrow>
                      if create_market_buy_order exch symbol amount_in_coin
                      then Returned
                        (st\<lparr>holdings := AList.update coin amount_in_coin (holdings st),
                            buy_prices := AList.update coin price (buy_prices st),
                            reference_prices := AList.update coin price (reference_prices st)\<rparr>,
                         orders @ [MarketBuy symbol amount_in_coin])
                      else Returned (st, orders @ [MarketBuy symbol amount_in_coin]))
               else if price < reference_price then
                 Returned
                   (st\<lparr>reference_prices := AList.update coin price (reference_prices st)\<rparr>, orders)
               else Returned (st, orders)
           | Some amount_to_sell \<Rightarrow>
               (case map_of (buy_prices st) coin of
                  None \<Rightarrow> Raised KeyError (st, orders)
                | Some buy_price \<Rightarrow>
                    if buy_price = 0 then Raised ZeroDivisionError (st, orders)
                    else if (price - buy_price) / buy_price \<ge> PRICE_RISE_THRESHOLD then
                      (if create_market_sell_order exch symbol amount_to_sell
                       then Returned
                         (st\<lparr>holdings := AList.delete coin (holdings st),
                             buy_prices := AList.delete coin (buy_prices st),
                             reference_prices := AList.update coin price (reference_prices st)\<rparr>,
                          orders @ [MarketSell symbol amount_to_sell])
                       else Returned (st, orders @ [MarketSell symbol amount_to_sell]))
                    else Returned (st, orders))))"

text \<open>The loop over \<open>current_prices.items()\<close>; an exception leaves it.\<close>

fun check_trading_conditions_loop ::
  "exchange \<Rightarrow> state \<times> placed_order list \<Rightarrow> (coin \<times> rat) list \<Rightarrow> outcome" where
  "check_trading_conditions_loop exch r [] = Returned r"
| "check_trading_conditions_loop exch r (item # items) =
     (case check_coin exch r item of
        Returned r' \<Rightarrow> check_trading_conditions_loop exch r' items
      | Raised e r' \<Rightarrow> Raised e r')"

definition check_trading_conditions ::
  "exchange \<Rightarrow> state \<Rightarrow> (coin \<times> rat) list \<Rightarrow> outcome" where
  "check_trading_conditions exch st current_prices =
     check_trading_conditions_loop exch (st, []) current_prices"

subsection \<open>The main loop (lines 177--191)\<close>


subsection \<open>The state file (lines 43--60)\<close>

text \<open>
  The file holds a JSON document. \<open>json.dump\<close> writes the three dictionaries of the
  state as an object with the keys \<open>holdings\<close>, \<open>buy_prices\<close> and
  \<open>reference_prices\<close>, in this order, each an object from coins to numbers;
  \<open>json.load\<close> reads the document back. The text of the file is not modelled: a file
  is the document it contains.
\<close>

datatype json = JNumber rat | JObject "(string \<times> json) list"

type_synonym files = "string \<Rightarrow> json option"

definition dump_dict :: "(coin \<times> rat) list \<Rightarrow> json" where
  "dump_dict d = JObject (map (\<lambda>(k, v). (k, JNumber v)) d)"

definition dump_state :: "state \<Rightarrow> json" where
  "dump_state st =
     JObject [(''holdings'', dump_dict (holdings st)),
              (''buy_prices'', dump_dict (buy_prices st)),
              (''reference_prices'', dump_dict (reference_prices st))]"

fun load_entry :: "string \<times> json \<Rightarrow> (coin \<times> rat) option" where
  "load_entry (k, JNumber v) = Some (k, v)"
| "load_entry (k, JObject kvs) = None"

fun load_dict :: "json \<Rightarrow> (coin \<times> rat) list option" where
  "load_dict (JObject kvs) = those (map load_entry kvs)"
| "load_dict (JNumber v) = None"

text \<open>
  The state read from a document; \<open>None\<close> when the document is not an object with
  the three dictionaries (the program would fail at its first access).
\<close>

fun load_document :: "json \<Rightarrow> state option" where
  "load_document (JObject kvs) =
     (case (map_of kvs ''holdings'', map_of kvs ''buy_prices'', map_of kvs ''reference_prices'') of
        (Some h, Some b, Some r) \<Rightarrow>
          (case (load_dict h, load_dict b, load_dict r) of
             (Some hs, Some bs, Some rs) \<Rightarrow>
               Some \<lparr>holdings = hs, buy_prices = bs, reference_prices = rs\<rparr>
           | _ \<Rightarrow> None)
      | _ \<Rightarrow> None)"
| "load_document (JNumber v) = None"

definition load_state :: "files \<Rightarrow> state option" where
  "load_state fs =
     (case fs STATE_FILE of
        Some doc \<Rightarrow> load_document doc
      | None \<Rightarrow> Some empty_state)"

definition save_state :: "state \<Rightarrow> files \<Rightarrow> files" where
  "save_state st fs = fs(STATE_FILE \<mapsto> dump_state st)"

subsection \<open>What is recorded for one asset\<close>

text \<open>
  The recorded state of an asset: its entries, if any, in \<open>holdings\<close>,
  \<open>buy_prices\<close> and \<open>reference_prices\<close>.
\<close>

definition asset_state :: "state \<Rightarrow> coin \<Rightarrow> rat option \<times> rat option \<times> rat option" where
  "asset_state st c =
     (map_of (holdings st) c, map_of (buy_prices st) c, map_of (reference_prices st) c)"

text \<open>The orders submitted for an asset.\<close>

definition orders_for :: "coin \<Rightarrow> placed_order list \<Rightarrow> placed_order list" where
  "orders_for c orders = filter (\<lambda>ord. order_symbol ord = symbol_of c) orders"


text \<open>The pairing invariant for one asset.\<close>

definition paired :: "state \<Rightarrow> coin \<Rightarrow> bool" where
  "paired st c \<longleftrightarrow> (map_of (holdings st) c = None) = (map_of (buy_prices st) c = None)"




subsection \<open>Example exchanges and states\<close>

text \<open>An exchange on which every call succeeds; only BTC has a ticker.\<close>

definition exchange_ok :: exchange where
  "exchange_ok =
     \<lparr>fetch_ticker = (\<lambda>symbol. if symbol = ''BTC/USDT'' then Some 95 else None),
      load_markets = Some (\<lambda>symbol. Some (IntPrecision 4)),
      create_market_buy_order = (\<lambda>symbol amount. True),
      create_market_sell_order = (\<lambda>symbol amount. True)\<rparr>"

definition state_flat :: state where
  "state_flat = \<lparr>holdings = [], buy_prices = [], reference_prices = [(''BTC'', 100)]\<rparr>"

definition state_bought :: state where
  "state_bought =
     \<lparr>holdings = [(''BTC'', 263 / 5000)], buy_prices = [(''BTC'', 95)],
      reference_prices = [(''BTC'', 95)]\<rparr>"

text \<open>The same exchange with every order refused.\<close>

definition exchange_down :: exchange where
  "exchange_down =
     exchange_ok\<lparr>create_market_buy_order := (\<lambda>symbol amount. False),
                 create_market_sell_order := (\<lambda>symbol amount. False)\<rparr>"








section \<open>Properties\<close>

subsection \<open>One step of the loop and the other assets\<close>

lemma symbol_of_eq_iff [simp]: "symbol_of a = symbol_of b \<longleftrightarrow> a = b"
  by (simp add: symbol_of_def)

lemma check_coin_frame:
  assumes "c \<noteq> coin"
  shows "asset_state (outcome_state (check_coin exch (st, orders) (coin, price))) c = asset_state st c"
proof (cases "map_of (reference_prices st) coin")
  case None
  with assms show ?thesis
    by (simp add: Let_def asset_state_def AList.update_conv')
next
  case ref: (Some reference_price)
  show ?thesis
  proof (cases "map_of (holdings st) coin")
    case None
    with ref assms show ?thesis
      by (cases "buy_amount exch (symbol_of coin) price")
        (simp_all add: Let_def asset_state_def AList.update_conv')
  next
    case (Some amount_to_sell)
    with ref assms show ?thesis
      by (cases "map_of (buy_prices st) coin")
        (simp_all add: Let_def asset_state_def AList.update_conv' AList.delete_conv')
  qed
qed

lemma check_coin_orders_frame:
  assumes "c \<noteq> coin"
  shows "orders_for c (outcome_orders (check_coin exch (st, orders) (coin, price)))
    = orders_for c orders"
proof (cases "map_of (reference_prices st) coin")
  case None
  then show ?thesis by (simp add: Let_def)
next
  case ref: (Some reference_price)
  show ?thesis
  proof (cases "map_of (holdings st) coin")
    case None
    with ref assms show ?thesis
      by (cases "buy_amount exch (symbol_of coin) price")
        (simp_all add: Let_def orders_for_def)
  next
    case (Some amount_to_sell)
    with ref assms show ?thesis
      by (cases "map_of (buy_prices st) coin") (simp_all add: Let_def orders_for_def)
  qed
qed

lemma check_coin_Raised:
  assumes "check_coin exch (st, orders) (coin, price) = Raised e r"
  shows "r = (st, orders)"
proof (cases "map_of (reference_prices st) coin")
  case None
  with assms show ?thesis by (simp add: Let_def)
next
  case ref: (Some reference_price)
  show ?thesis
  proof (cases "map_of (holdings st) coin")
    case None
    with ref assms show ?thesis
      by (cases "buy_amount exch (symbol_of coin) price")
        (simp_all add: Let_def split: if_splits)
  next
    case (Some amount_to_sell)
    with ref assms show ?thesis
      by (cases "map_of (buy_prices st) coin") (simp_all add: Let_def split: if_splits)
  qed
qed

text \<open>What a step does to an asset depends on what is recorded for this asset only.\<close>

lemma check_coin_cong:
  assumes "asset_state st1 c = asset_state st c" and "orders_for c os1 = orders_for c os"
  shows "asset_state (outcome_state (check_coin exch (st1, os1) (c, p))) c
           = asset_state (outcome_state (check_coin exch (st, os) (c, p))) c
       \<and> orders_for c (outcome_orders (check_coin exch (st1, os1) (c, p)))
           = orders_for c (outcome_orders (check_coin exch (st, os) (c, p)))
       \<and> ((\<exists>r. check_coin exch (st1, os1) (c, p) = Returned r)
           \<longleftrightarrow> (\<exists>r. check_coin exch (st, os) (c, p) = Returned r))"
proof -
  from assms(1) have eqs: "map_of (holdings st1) c = map_of (holdings st) c"
    "map_of (buy_prices st1) c = map_of (buy_prices st) c"
    "map_of (reference_prices st1) c = map_of (reference_prices st) c"
    by (simp_all add: asset_state_def)
  from assms(2) have os: "filter (\<lambda>ord. order_symbol ord = symbol_of c) os1
     = filter (\<lambda>ord. order_symbol ord = symbol_of c) os"
    by (simp add: orders_for_def)
  show ?thesis
  proof (cases "map_of (reference_prices st) c")
    case None
    with eqs os show ?thesis
      by (simp add: Let_def asset_state_def orders_for_def AList.update_conv')
  next
    case ref: (Some reference_price)
    show ?thesis
    proof (cases "map_of (holdings st) c")
      case None
      with ref eqs os show ?thesis
        by (cases "buy_amount exch (symbol_of c) p")
          (simp_all add: Let_def asset_state_def orders_for_def AList.update_conv')
    next
      case hold: (Some amount_to_sell)
      with ref eqs os show ?thesis
        by (cases "map_of (buy_prices st) c")
          (simp_all add: Let_def asset_state_def orders_for_def AList.update_conv'
            AList.delete_conv')
    qed
  qed
qed

declare check_coin.simps [simp del]

lemma loop_frame:
  assumes "c \<notin> fst ` set items"
  shows "asset_state (outcome_state (check_trading_conditions_loop exch r items)) c
           = asset_state (fst r) c
       \<and> orders_for c (outcome_orders (check_trading_conditions_loop exch r items))
           = orders_for c (snd r)"
  using assms
proof (induction items arbitrary: r)
  case Nil
  then show ?case by simp
next
  case (Cons item items)
  obtain coin price where item: "item = (coin, price)" by (cases item)
  obtain st orders where r: "r = (st, orders)" by (cases r)
  from Cons.prems item have ne: "c \<noteq> coin" and rest: "c \<notin> fst ` set items" by auto
  note fr = check_coin_frame [OF ne, of exch st orders price]
    check_coin_orders_frame [OF ne, of exch st orders price]
  show ?case
  proof (cases "check_coin exch (st, orders) (coin, price)")
    case (Returned r')
    with fr Cons.IH [OF rest, of r'] show ?thesis by (simp add: item r)
  next
    case (Raised e r')
    with fr show ?thesis by (simp add: item r)
  qed
qed

text \<open>
  A cycle and one of its items \<open>(c, p)\<close>: either the step for \<open>c\<close> was run and returned,
  and the cycle leaves for \<open>c\<close> what this step, run on the initial state, leaves; or the
  cycle raised and nothing has changed for \<open>c\<close>.
\<close>

lemma cycle_asset:
  assumes "distinct (map fst items)" and "(c, p) \<in> set items"
  shows "(asset_state (outcome_state (check_trading_conditions_loop exch (st, os) items)) c
            = asset_state (outcome_state (check_coin exch (st, os) (c, p))) c
          \<and> orders_for c (outcome_orders (check_trading_conditions_loop exch (st, os) items))
            = orders_for c (outcome_orders (check_coin exch (st, os) (c, p)))
          \<and> (\<exists>r. check_coin exch (st, os) (c, p) = Returned r))
       \<or> (asset_state (outcome_state (check_trading_conditions_loop exch (st, os) items)) c
            = asset_state st c
          \<and> orders_for c (outcome_orders (check_trading_conditions_loop exch (st, os) items))
            = orders_for c os
          \<and> (\<exists>e r. check_trading_conditions_loop exch (st, os) items = Raised e r))"
  using assms
proof (induction items arbitrary: st os)
  case Nil
  then show ?case by simp
next
  case (Cons item items)
  obtain coin price where item: "item = (coin, price)" by (cases item)
  from Cons.prems(1) item have notin: "coin \<notin> fst ` set items"
    and dist: "distinct (map fst items)" by auto
  show ?case
  proof (cases "coin = c")
    case True
    with Cons.prems(2) notin item have p: "price = p" by force
    show ?thesis
    proof (cases "check_coin exch (st, os) (c, p)")
      case (Returned r1)
      with loop_frame [of c items exch r1] notin True p item show ?thesis by simp
    next
      case (Raised e r1)
      with check_coin_Raised [OF Raised] True p item show ?thesis by simp
    qed
  next
    case False
    with Cons.prems(2) item have mem: "(c, p) \<in> set items" by auto
    from False have ne: "c \<noteq> coin" by simp
    show ?thesis
    proof (cases "check_coin exch (st, os) (coin, price)")
      case (Returned r1)
      obtain st1 os1 where r1: "r1 = (st1, os1)" by (cases r1)
      from check_coin_frame [OF ne, of exch st os price] Returned r1
      have a: "asset_state st1 c = asset_state st c" by simp
      from check_coin_orders_frame [OF ne, of exch st os price] Returned r1
      have b: "orders_for c os1 = orders_for c os" by simp
      from Cons.IH [OF dist mem, of st1 os1] check_coin_cong [OF a b, of exch p] a b
      show ?thesis by (simp add: item Returned r1)
    next
      case (Raised e r1)
      with check_coin_Raised [OF Raised] item show ?thesis by simp
    qed
  qed
qed

subsection \<open>The state file\<close>

lemma load_dict_dump_dict: "load_dict (dump_dict d) = Some d"
proof -
  have "those (map load_entry (map (\<lambda>(k, v). (k, JNumber v)) d)) = Some d"
    by (induction d) auto
  then show ?thesis by (simp add: dump_dict_def)
qed

text \<open>
  C9. Saving a state and then loading it gives the state that was saved: the three
  dictionaries \<open>holdings\<close>, \<open>buy_prices\<close> and \<open>reference_prices\<close> come back entry
  for entry, whatever the files held before.
\<close>

theorem load_after_save: "load_state (save_state st fs) = Some st"
  by (simp add: load_state_def save_state_def dump_state_def load_dict_dump_dict)

subsection \<open>A cycle that returns\<close>


lemma orders_for_Nil [simp]: "orders_for c [] = []"
  by (simp add: orders_for_def)

subsection \<open>Buying\<close>



subsection \<open>Selling\<close>




subsection \<open>Orders that fail\<close>

text \<open>
  C3. A buy is attempted for an asset without a holding whose price has dropped by the
  threshold below its reference price; it fails when lines 100--110 raise or the exchange
  refuses the order. A sale is attempted for an asset with a holding, a buy price and a
  reference price whose price has risen by the threshold; it fails when the exchange
  refuses the order. In both cases the holding, the buy price and the reference price of
  the asset after the cycle are those before it, whether the cycle returns or raises.
\<close>

theorem failed_order_keeps_state:
  assumes "distinct (map fst current_prices)"
    and "(c, price) \<in> set current_prices"
  shows "(map_of (holdings st) c = None
           \<and> map_of (reference_prices st) c = Some reference_price
           \<and> (price - reference_price) / reference_price \<le> - PRICE_DROP_THRESHOLD
           \<and> (case buy_amount exch (symbol_of c) price of
                 None \<Rightarrow> True
               | Some amount \<Rightarrow> \<not> create_market_buy_order exch (symbol_of c) amount)
          \<longrightarrow> asset_state (outcome_state (check_trading_conditions exch st current_prices)) c
                = asset_state st c)
       \<and> (map_of (holdings st) c = Some amount_to_sell
           \<and> map_of (buy_prices st) c = Some buy_price
           \<and> map_of (reference_prices st) c = Some reference_price
           \<and> (price - buy_price) / buy_price \<ge> PRICE_RISE_THRESHOLD
           \<and> \<not> create_market_sell_order exch (symbol_of c) amount_to_sell
          \<longrightarrow> asset_state (outcome_state (check_trading_conditions exch st current_prices)) c
                = asset_state st c)"
proof -
  have cyc: "asset_state (outcome_state (check_trading_conditions exch st current_prices)) c
        = asset_state (outcome_state (check_coin exch (st, []) (c, price))) c
      \<or> asset_state (outcome_state (check_trading_conditions exch st current_prices)) c
        = asset_state st c"
    using cycle_asset [OF assms, of exch st "[]"]
    by (auto simp: check_trading_conditions_def)
  show ?thesis
  proof (intro conjI impI)
    assume a: "map_of (holdings st) c = None
      \<and> map_of (reference_prices st) c = Some reference_price
      \<and> (price - reference_price) / reference_price \<le> - PRICE_DROP_THRESHOLD
      \<and> (case buy_amount exch (symbol_of c) price of
            None \<Rightarrow> True
          | Some amount \<Rightarrow> \<not> create_market_buy_order exch (symbol_of c) amount)"
    then have "outcome_state (check_coin exch (st, []) (c, price)) = st"
      by (cases "buy_amount exch (symbol_of c) price")
        (simp_all add: check_coin.simps Let_def)
    with cyc
    show "asset_state (outcome_state (check_trading_conditions exch st current_prices)) c
      = asset_state st c"
      by auto
  next
    assume a: "map_of (holdings st) c = Some amount_to_sell
      \<and> map_of (buy_prices st) c = Some buy_price
      \<and> map_of (reference_prices st) c = Some reference_price
      \<and> (price - buy_price) / buy_price \<ge> PRICE_RISE_THRESHOLD
      \<and> \<not> create_market_sell_order exch (symbol_of c) amount_to_sell"
    then have "outcome_state (check_coin exch (st, []) (c, price)) = st"
      by (simp add: check_coin.simps Let_def)
    with cyc
    show "asset_state (outcome_state (check_trading_conditions exch st current_prices)) c
      = asset_state st c"
      by auto
  qed
qed

theorem failed_order_keeps_state_witness:
  "check_trading_conditions exchange_down state_flat [(''BTC'', 95)]
     = Returned (state_flat, [MarketBuy ''BTC/USDT'' (263 / 5000)])
   \<and> buy_amount exchange_down (symbol_of ''BTC'') 95 = Some (263 / 5000)
   \<and> \<not> create_market_buy_order exchange_down (symbol_of ''BTC'') (263 / 5000)
   \<and> asset_state (outcome_state (check_trading_conditions exchange_down state_flat
         [(''BTC'', 95)])) ''BTC'' = (None, None, Some 100)
   \<and> check_trading_conditions exchange_down state_bought [(''BTC'', 209 / 2)]
     = Returned (state_bought, [MarketSell ''BTC/USDT'' (263 / 5000)])
   \<and> \<not> create_market_sell_order exchange_down (symbol_of ''BTC'') (263 / 5000)
   \<and> asset_state (outcome_state (check_trading_conditions exchange_down state_bought
         [(''BTC'', 209 / 2)])) ''BTC'' = (Some (263 / 5000), Some 95, Some 95)"
proof -
  have d1: "distinct (map fst [(''BTC'', 95 :: rat)])"
    and m1: "(''BTC'', 95) \<in> set [(''BTC'', 95 :: rat)]"
    and d2: "distinct (map fst [(''BTC'', 209 / 2 :: rat)])"
    and m2: "(''BTC'', 209 / 2) \<in> set [(''BTC'', 209 / 2 :: rat)]"
    by simp_all
  have amt: "buy_amount exchange_down (symbol_of ''BTC'') 95 = Some (263 / 5000)"
    by (simp add: buy_amount_def exchange_down_def exchange_ok_def symbol_of_def
        round_amount_def AMOUNT_TO_BUY_def floor_eq_iff)
  have no_buy: "\<not> create_market_buy_order exchange_down (symbol_of ''BTC'') (263 / 5000)"
    and no_sell: "\<not> create_market_sell_order exchange_down (symbol_of ''BTC'') (263 / 5000)"
    by (simp_all add: exchange_down_def)
  have run1: "check_trading_conditions exchange_down state_flat [(''BTC'', 95)]
     = Returned (state_flat, [MarketBuy ''BTC/USDT'' (263 / 5000)])"
    using amt no_buy
    by (simp add: check_trading_conditions_def check_coin.simps state_flat_def
        PRICE_DROP_THRESHOLD_def symbol_of_def)
  have run2: "check_trading_conditions exchange_down state_bought [(''BTC'', 209 / 2)]
     = Returned (state_bought, [MarketSell ''BTC/USDT'' (263 / 5000)])"
    using no_sell
    by (simp add: check_trading_conditions_def check_coin.simps state_bought_def
        PRICE_RISE_THRESHOLD_def symbol_of_def)
  have flat: "map_of (holdings state_flat) ''BTC'' = None
      \<and> map_of (reference_prices state_flat) ''BTC'' = Some 100
      \<and> ((95 :: rat) - 100) / 100 \<le> - PRICE_DROP_THRESHOLD
      \<and> (case buy_amount exchange_down (symbol_of ''BTC'') 95 of
            None \<Rightarrow> True
          | Some amount \<Rightarrow> \<not> create_market_buy_order exchange_down (symbol_of ''BTC'') amount)"
    using no_buy by (simp add: amt state_flat_def PRICE_DROP_THRESHOLD_def)
  have held: "map_of (holdings state_bought) ''BTC'' = Some (263 / 5000)
      \<and> map_of (buy_prices state_bought) ''BTC'' = Some 95
      \<and> map_of (reference_prices state_bought) ''BTC'' = Some 95
      \<and> ((209 / 2 :: rat) - 95) / 95 \<ge> PRICE_RISE_THRESHOLD
      \<and> \<not> create_market_sell_order exchange_down (symbol_of ''BTC'') (263 / 5000)"
    using no_sell by (simp add: state_bought_def PRICE_RISE_THRESHOLD_def)
  have s1: "asset_state state_flat ''BTC'' = (None, None, Some 100)"
    and s2: "asset_state state_bought ''BTC'' = (Some (263 / 5000), Some 95, Some 95)"
    by (simp_all add: asset_state_def state_flat_def state_bought_def)
  from failed_order_keeps_state [OF d1 m1, where st = state_flat and reference_price = 100
      and exch = exchange_down]
    failed_order_keeps_state [OF d2 m2, where st = state_bought and exch = exchange_down
      and amount_to_sell = "263 / 5000" and buy_price = 95 and reference_price = 95]
    flat held
  have "asset_state (outcome_state (check_trading_conditions exchange_down state_flat
         [(''BTC'', 95)])) ''BTC'' = asset_state state_flat ''BTC''"
    and "asset_state (outcome_state (check_trading_conditions exchange_down state_bought
         [(''BTC'', 209 / 2)])) ''BTC'' = asset_state state_bought ''BTC''"
    by blast+
  with run1 run2 amt no_buy no_sell s1 s2 show ?thesis by simp
qed

subsection \<open>The first observation\<close>



subsection \<open>The pairing invariant\<close>

lemma paired_asset_state:
  "asset_state st' c = asset_state st c \<Longrightarrow> paired st' c = paired st c"
  by (simp add: asset_state_def paired_def)

lemma paired_reference_update [simp]:
  "paired (st\<lparr>reference_prices := rs\<rparr>) c = paired st c"
  by (simp add: paired_def)

lemma paired_after_buy:
  "paired (st\<lparr>holdings := AList.update c amount (holdings st),
              buy_prices := AList.update c price (buy_prices st)\<rparr>) c"
  by (simp add: paired_def AList.update_conv')

lemma paired_after_sell:
  "paired (st\<lparr>holdings := AList.delete c (holdings st),
              buy_prices := AList.delete c (buy_prices st)\<rparr>) c"
  by (simp add: paired_def AList.delete_conv')

lemma check_coin_paired_same:
  assumes "paired st c"
  shows "paired (outcome_state (check_coin exch (st, os) (c, price))) c"
proof (cases "map_of (reference_prices st) c")
  case None
  with assms show ?thesis by (simp add: check_coin.simps Let_def)
next
  case ref: (Some reference_price)
  show ?thesis
  proof (cases "map_of (holdings st) c")
    case None
    with ref assms show ?thesis
      by (cases "buy_amount exch (symbol_of c) price")
        (simp_all add: check_coin.simps Let_def paired_after_buy)
  next
    case (Some amount_to_sell)
    with ref assms show ?thesis
      by (cases "map_of (buy_prices st) c")
        (simp_all add: check_coin.simps Let_def paired_after_sell)
  qed
qed

lemma check_coin_paired:
  assumes "paired st c"
  shows "paired (outcome_state (check_coin exch (st, os) (coin, price))) c"
proof (cases "coin = c")
  case True
  with check_coin_paired_same [OF assms] show ?thesis by simp
next
  case False
  then have "c \<noteq> coin" by simp
  from paired_asset_state [OF check_coin_frame [OF this]] assms show ?thesis
    by simp
qed

lemma loop_paired:
  assumes "paired (fst r) c"
  shows "paired (outcome_state (check_trading_conditions_loop exch r items)) c"
  using assms
proof (induction items arbitrary: r)
  case Nil
  then show ?case by simp
next
  case (Cons item items)
  obtain coin price where item: "item = (coin, price)" by (cases item)
  obtain st os where r: "r = (st, os)" by (cases r)
  from Cons.prems r have "paired (outcome_state (check_coin exch (st, os) (coin, price))) c"
    by (simp add: check_coin_paired)
  then show ?case
    by (cases "check_coin exch (st, os) (coin, price)") (simp_all add: item r Cons.IH)
qed

text \<open>
  C4. If an asset has a holding exactly when it has a buy price before a cycle, then so
  it has in the state that the cycle leaves, whether the cycle returns or raises.
\<close>

theorem pairing_preserved:
  assumes "paired st c"
  shows "paired (outcome_state (check_trading_conditions exch st current_prices)) c"
  using assms by (simp add: check_trading_conditions_def loop_paired)

theorem pairing_preserved_witness:
  "paired state_flat ''BTC''
   \<and> check_trading_conditions exchange_ok state_flat [(''BTC'', 95)]
       = Returned (state_bought, [MarketBuy ''BTC/USDT'' (263 / 5000)])
   \<and> paired (outcome_state (check_trading_conditions exchange_ok state_flat [(''BTC'', 95)]))
       ''BTC''
   \<and> paired state_bought ''BTC''"
proof -
  have p: "paired state_flat ''BTC''"
    by (simp add: paired_def state_flat_def)
  have amt: "buy_amount exchange_ok (symbol_of ''BTC'') 95 = Some (263 / 5000)"
    by (simp add: buy_amount_def exchange_ok_def symbol_of_def round_amount_def
        AMOUNT_TO_BUY_def floor_eq_iff)
  have run: "check_trading_conditions exchange_ok state_flat [(''BTC'', 95)]
       = Returned (state_bought, [MarketBuy ''BTC/USDT'' (263 / 5000)])"
    using amt
    by (simp add: check_trading_conditions_def check_coin.simps state_flat_def state_bought_def
        PRICE_DROP_THRESHOLD_def exchange_ok_def symbol_of_def)
  from pairing_preserved [OF p, of exchange_ok "[(''BTC'', 95)]"] p run
  show ?thesis by simp
qed

subsection \<open>Division by zero\<close>








subsection \<open>The amount of a buy order\<close>







subsection \<open>Fetching the prices\<close>







subsection \<open>The reference price of an asset without a holding\<close>










end
